theory Spec2Isabelle
  imports Complex_Main
begin

section \<open>Numbers, exceptions and array primitives\<close>

text \<open>
  The module \<^verbatim>\<open>magritte/tools.py\<close> computes on numpy 64-bit floats. They are modelled
  by \<open>npfloat\<close>: a real number, or one of the three special values of IEEE arithmetic.
  The arithmetic is exact on the finite values: rounding and the sign of zero are not
  modelled, and of overflow and underflow only those of \<^verbatim>\<open>np.exp\<close> are (see \<open>fexp\<close>).
  What is modelled is what numpy does where real arithmetic has no answer: a division by
  zero gives an infinity or NaN (with a warning, not an exception), NaN propagates, and
  every comparison with NaN is false. The scalars that a caller passes (a temperature, a
  frequency, the zoom) are numpy floats as well.
\<close>

datatype npfloat = Fin real | PInf | NInf | NaN

datatype error = IndexError | ValueError | OSError

fun is_fin :: "npfloat \<Rightarrow> bool" where
  "is_fin (Fin x) = True"
| "is_fin PInf = False"
| "is_fin NInf = False"
| "is_fin NaN = False"

fun fneg :: "npfloat \<Rightarrow> npfloat" where
  "fneg (Fin x) = Fin (- x)"
| "fneg PInf = NInf"
| "fneg NInf = PInf"
| "fneg NaN = NaN"

fun fadd :: "npfloat \<Rightarrow> npfloat \<Rightarrow> npfloat" where
  "fadd (Fin x) (Fin y) = Fin (x + y)"
| "fadd NaN b = NaN"
| "fadd a NaN = NaN"
| "fadd PInf NInf = NaN"
| "fadd NInf PInf = NaN"
| "fadd PInf b = PInf"
| "fadd NInf b = NInf"
| "fadd a PInf = PInf"
| "fadd a NInf = NInf"

definition fsub :: "npfloat \<Rightarrow> npfloat \<Rightarrow> npfloat" where
  "fsub a b = fadd a (fneg b)"

text \<open>The sign of a value: \<open>Some True\<close> positive, \<open>Some False\<close> negative, \<open>None\<close> zero or NaN.\<close>

fun fsign :: "npfloat \<Rightarrow> bool option" where
  "fsign (Fin x) = (if 0 < x then Some True else if x < 0 then Some False else None)"
| "fsign PInf = Some True"
| "fsign NInf = Some False"
| "fsign NaN = None"

definition signed_inf :: "bool \<Rightarrow> npfloat" where
  "signed_inf pos = (if pos then PInf else NInf)"

fun fmul :: "npfloat \<Rightarrow> npfloat \<Rightarrow> npfloat" where
  "fmul (Fin x) (Fin y) = Fin (x * y)"
| "fmul NaN b = NaN"
| "fmul a NaN = NaN"
| "fmul a b =
     (case (fsign a, fsign b) of
        (Some s, Some t) \<Rightarrow> signed_inf (s = t)
      | _ \<Rightarrow> NaN)"

text \<open>
  Division of numpy floats never raises. A finite non-zero value over zero is an infinity
  of the sign of the numerator, zero over zero is NaN, a finite value over an infinity is
  zero, and an infinity over an infinity is NaN.
\<close>

fun fdiv :: "npfloat \<Rightarrow> npfloat \<Rightarrow> npfloat" where
  "fdiv (Fin x) (Fin y) =
     (if y = 0 then (if x = 0 then NaN else signed_inf (0 < x)) else Fin (x / y))"
| "fdiv NaN b = NaN"
| "fdiv a NaN = NaN"
| "fdiv (Fin x) b = Fin 0"
| "fdiv a (Fin y) = (if 0 \<le> y then a else fneg a)"
| "fdiv a b = NaN"

fun fabs :: "npfloat \<Rightarrow> npfloat" where
  "fabs (Fin x) = Fin \<bar>x\<bar>"
| "fabs PInf = PInf"
| "fabs NInf = PInf"
| "fabs NaN = NaN"

fun fless :: "npfloat \<Rightarrow> npfloat \<Rightarrow> bool" where
  "fless (Fin x) (Fin y) = (x < y)"
| "fless NaN b = False"
| "fless a NaN = False"
| "fless a NInf = False"
| "fless PInf b = False"
| "fless NInf b = True"
| "fless a PInf = True"

definition fgreater :: "npfloat \<Rightarrow> npfloat \<Rightarrow> bool" where
  "fgreater a b = fless b a"




fun fexpm1 :: "npfloat \<Rightarrow> npfloat" where
  "fexpm1 (Fin x) = Fin (exp x - 1)"
| "fexpm1 PInf = PInf"
| "fexpm1 NInf = Fin (- 1)"
| "fexpm1 NaN = NaN"

text \<open>\<^verbatim>\<open>np.power(x, 3)\<close>: the cube keeps the sign of an infinity.\<close>

fun fcube :: "npfloat \<Rightarrow> npfloat" where
  "fcube (Fin x) = Fin (x ^ 3)"
| "fcube PInf = PInf"
| "fcube NInf = NInf"
| "fcube NaN = NaN"

subsection \<open>Exceptions and indexing\<close>

text \<open>
  A function that can raise returns \<open>error + 'a\<close>, \<open>Inl\<close> carrying the exception.
  \<open>bind_e\<close> sequences two steps and \<open>mapM_e\<close> runs a \<^verbatim>\<open>for\<close> loop whose body can
  raise: the first exception ends the loop.
\<close>

definition bind_e :: "error + 'a \<Rightarrow> ('a \<Rightarrow> error + 'b) \<Rightarrow> error + 'b" where
  "bind_e m f = (case m of Inl e \<Rightarrow> Inl e | Inr x \<Rightarrow> f x)"

fun mapM_e :: "('a \<Rightarrow> error + 'b) \<Rightarrow> 'a list \<Rightarrow> error + 'b list" where
  "mapM_e f [] = Inr []"
| "mapM_e f (x # xs) =
     bind_e (f x) (\<lambda>y. bind_e (mapM_e f xs) (\<lambda>ys. Inr (y # ys)))"

text \<open>\<^verbatim>\<open>xs[i]\<close> for an index that is a count: out of range raises IndexError.\<close>

definition idx :: "'a list \<Rightarrow> nat \<Rightarrow> error + 'a" where
  "idx xs i = (if i < length xs then Inr (xs ! i) else Inl IndexError)"

text \<open>\<^verbatim>\<open>xs[i]\<close> for a Python integer: a negative index counts from the end.\<close>

definition py_index :: "'a list \<Rightarrow> int \<Rightarrow> error + 'a" where
  "py_index xs i =
     (if 0 \<le> i \<and> i < int (length xs) then Inr (xs ! nat i)
      else if i < 0 \<and> - int (length xs) \<le> i then Inr (xs ! nat (int (length xs) + i))
      else Inl IndexError)"

subsection \<open>Reductions of numpy and Python\<close>

text \<open>Python's \<^verbatim>\<open>sum\<close> and \<^verbatim>\<open>np.sum\<close>: the sum from zero, left to right.\<close>

definition py_sum :: "npfloat list \<Rightarrow> npfloat" where
  "py_sum xs = foldl fadd (Fin 0) xs"

text \<open>
  \<^verbatim>\<open>np.mean\<close> of an empty array is NaN (zero over zero, with a warning); \<^verbatim>\<open>np.min\<close> and
  \<^verbatim>\<open>np.max\<close> of an empty array raise ValueError, and they propagate NaN.
\<close>

definition np_mean :: "npfloat list \<Rightarrow> npfloat" where
  "np_mean xs = fdiv (py_sum xs) (Fin (real (length xs)))"

definition fmin2 :: "npfloat \<Rightarrow> npfloat \<Rightarrow> npfloat" where
  "fmin2 a b = (if a = NaN \<or> b = NaN then NaN else if fless b a then b else a)"

definition fmax2 :: "npfloat \<Rightarrow> npfloat \<Rightarrow> npfloat" where
  "fmax2 a b = (if a = NaN \<or> b = NaN then NaN else if fless a b then b else a)"

definition np_min :: "npfloat list \<Rightarrow> error + npfloat" where
  "np_min xs = (case xs of [] \<Rightarrow> Inl ValueError | x # r \<Rightarrow> Inr (foldl fmin2 x r))"

definition np_max :: "npfloat list \<Rightarrow> error + npfloat" where
  "np_max xs = (case xs of [] \<Rightarrow> Inl ValueError | x # r \<Rightarrow> Inr (foldl fmax2 x r))"

text \<open>\<^verbatim>\<open>np.diff\<close>: the consecutive differences \<^verbatim>\<open>xs[i+1] - xs[i]\<close>.\<close>

definition np_diff :: "npfloat list \<Rightarrow> npfloat list" where
  "np_diff xs = map (\<lambda>(a, b). fsub b a) (zip xs (tl xs))"

subsection \<open>Physical constants\<close>

definition c :: real where
  "c = 299792458"

definition h :: real where
  "h = 662607004 / 10 ^ 42"

definition kb :: real where
  "kb = 138064852 / 10 ^ 31"

definition amu :: real where
  "amu = 166053904 / 10 ^ 35"

definition T_CMB :: real where
  "T_CMB = 272548 / 100000"

section \<open>Radiative quantities\<close>

definition relative_error :: "npfloat \<Rightarrow> npfloat \<Rightarrow> npfloat" where
  "relative_error a b = fdiv (fmul (Fin 2) (fsub a b)) (fadd a b)"

definition planck :: "npfloat \<Rightarrow> npfloat \<Rightarrow> npfloat" where
  "planck temperature frequency =
     fdiv (fmul (Fin (2 * h / c ^ 2)) (fcube frequency))
          (fexpm1 (fdiv (fmul (Fin h) frequency) (fmul (Fin kb) temperature)))"

definition I_CMB :: "npfloat \<Rightarrow> npfloat" where
  "I_CMB frequency = planck (Fin T_CMB) frequency"

text \<open>
  The line data of the simulation: \<open>nlev\<close> levels with their statistical weights and
  energies, \<open>nrad\<close> radiative transitions with the indices of their upper (\<open>irad\<close>) and
  lower (\<open>jrad\<close>) level, their frequency and Einstein coefficients. The level indices
  are counts (unsigned in the simulation).
\<close>

record LineData =
  nlev :: nat
  weight :: "npfloat list"
  energy :: "npfloat list"
  nrad :: nat
  irad :: "nat list"
  jrad :: "nat list"
  frequency :: "npfloat list"
  A :: "npfloat list"
  Ba :: "npfloat list"
  Bs :: "npfloat list"
  inverse_mass :: npfloat



text \<open>The factor \<^verbatim>\<open>h*linedata.frequency[k]/(4.0*np.pi)\<close> of both loops.\<close>

definition hnu_4pi :: "npfloat \<Rightarrow> npfloat" where
  "hnu_4pi nu_k = fdiv (fmul (Fin h) nu_k) (Fin (4 * pi))"

definition lineEmissivity_k :: "LineData \<Rightarrow> npfloat list \<Rightarrow> nat \<Rightarrow> error + npfloat" where
  "lineEmissivity_k linedata pop k =
     bind_e (idx (irad linedata) k) (\<lambda>i.
     bind_e (idx (jrad linedata) k) (\<lambda>j.
     bind_e (idx (frequency linedata) k) (\<lambda>nu_k.
     bind_e (idx (A linedata) k) (\<lambda>a_k.
     bind_e (idx pop i) (\<lambda>pop_i.
       Inr (fmul (fmul (hnu_4pi nu_k) a_k) pop_i))))))"

definition lineEmissivity :: "LineData \<Rightarrow> npfloat list \<Rightarrow> error + npfloat list" where
  "lineEmissivity linedata pop = mapM_e (lineEmissivity_k linedata pop) [0..<nrad linedata]"

definition lineOpacity_k :: "LineData \<Rightarrow> npfloat list \<Rightarrow> nat \<Rightarrow> error + npfloat" where
  "lineOpacity_k linedata pop k =
     bind_e (idx (irad linedata) k) (\<lambda>i.
     bind_e (idx (jrad linedata) k) (\<lambda>j.
     bind_e (idx (frequency linedata) k) (\<lambda>nu_k.
     bind_e (idx (Ba linedata) k) (\<lambda>ba_k.
     bind_e (idx pop j) (\<lambda>pop_j.
     bind_e (idx (Bs linedata) k) (\<lambda>bs_k.
     bind_e (idx pop i) (\<lambda>pop_i.
       Inr (fmul (hnu_4pi nu_k) (fsub (fmul ba_k pop_j) (fmul bs_k pop_i))))))))))"

definition lineOpacity :: "LineData \<Rightarrow> npfloat list \<Rightarrow> error + npfloat list" where
  "lineOpacity linedata pop = mapM_e (lineOpacity_k linedata pop) [0..<nrad linedata]"

text \<open>
  The quotient of two numpy arrays is taken element by element; both arrays have
  \<open>nrad\<close> entries here, so no broadcasting takes place.
\<close>

definition lineSource :: "LineData \<Rightarrow> npfloat list \<Rightarrow> error + npfloat list" where
  "lineSource linedata pop =
     bind_e (lineEmissivity linedata pop) (\<lambda>eta.
     bind_e (lineOpacity linedata pop) (\<lambda>chi.
       Inr (map (\<lambda>(e, x). fdiv e x) (zip eta chi))))"

section \<open>The image exporter\<close>

text \<open>
  What \<^verbatim>\<open>save_fits\<close> reads of the model: the images (scattered coordinates \<open>ImX\<close>, \<open>ImY\<close>
  and the intensities \<open>I\<close>, one row per point and one column per frequency bin), the name
  of the model (\<^verbatim>\<open>parameters.model_name()\<close>), the number of frequency bins
  (\<^verbatim>\<open>parameters.nfreqs()\<close>) and the frequencies (\<^verbatim>\<open>radiation.frequencies.nu\<close>, one row per
  point).
\<close>

record image =
  ImX :: "npfloat list"
  ImY :: "npfloat list"
  I :: "npfloat list list"

record model =
  images :: "image list"
  model_name :: string
  nfreqs :: nat
  nu :: "npfloat list list"

subsection \<open>Library functions\<close>

text \<open>
  \<^verbatim>\<open>np.array\<close> of a list of rows raises ValueError when the rows differ in length.
  \<^verbatim>\<open>a[:, f]\<close> is column \<open>f\<close> of a two-dimensional array; an array made from no row
  at all is one-dimensional, and the index raises.
\<close>

definition np_array2 :: "npfloat list list \<Rightarrow> error + npfloat list list" where
  "np_array2 rows =
     (if \<forall>r\<in>set rows. length r = length (hd rows) then Inr rows else Inl ValueError)"

definition column :: "npfloat list list \<Rightarrow> nat \<Rightarrow> error + npfloat list" where
  "column rows f =
     (case rows of
        [] \<Rightarrow> Inl IndexError
      | r # _ \<Rightarrow> if f < length r then Inr (map (\<lambda>row. row ! f) rows) else Inl IndexError)"

text \<open>
  \<^verbatim>\<open>np.linspace(start, stop, num)\<close>: \<open>num\<close> samples \<open>start + i * step\<close> with
  \<open>step = (stop - start) / (num - 1)\<close>, the last one set to \<open>stop\<close>; a single sample is
  \<open>start + 0 * (stop - start)\<close>; a negative count raises ValueError.
\<close>

definition linspace :: "npfloat \<Rightarrow> npfloat \<Rightarrow> int \<Rightarrow> error + npfloat list" where
  "linspace start stop num =
     (if num < 0 then Inl ValueError
      else if num \<le> 1
        then Inr (map (\<lambda>i. fadd (fmul (Fin (real i)) (fsub stop start)) start) [0..<nat num])
      else Inr (map (\<lambda>i. fadd (fmul (Fin (real i))
                                   (fdiv (fsub stop start) (Fin (real (nat num - 1))))) start)
                  [0..<nat num - 1] @ [stop]))"

text \<open>
  \<^verbatim>\<open>scipy.interpolate.griddata(points, values, xi, method)\<close>. The interpolation itself
  is a parameter of the model: \<open>method points values q\<close> is the value that the chosen
  method gives at the point \<open>q\<close> for the scattered \<open>points\<close> and their \<open>values\<close>. What is
  modelled is the shape of the call. The coordinate arrays of the points are broadcast
  against each other, and there must be one value per point. The targets
  \<^verbatim>\<open>(xs[None,:], ys[:,None])\<close> have the shapes \<open>(1, len(xs))\<close> and \<open>(len(ys), 1)\<close>; they
  are broadcast to \<open>(len(ys), len(xs))\<close>, so the result has one row per entry of \<open>ys\<close>
  and one column per entry of \<open>xs\<close>, and its entry \<open>[a][b]\<close> is the value at
  \<open>(xs[b], ys[a])\<close>.
\<close>

type_synonym point = "npfloat \<times> npfloat"

type_synonym interpolant = "point list \<Rightarrow> npfloat list \<Rightarrow> point \<Rightarrow> npfloat"

definition broadcast_points :: "npfloat list \<Rightarrow> npfloat list \<Rightarrow> error + point list" where
  "broadcast_points px py =
     (if length px = length py then Inr (zip px py)
      else if length px = 1 then Inr (map (\<lambda>y. (hd px, y)) py)
      else if length py = 1 then Inr (map (\<lambda>x. (x, hd py)) px)
      else Inl ValueError)"

definition griddata ::
  "interpolant \<Rightarrow> npfloat list \<Rightarrow> npfloat list \<Rightarrow> npfloat list \<Rightarrow> npfloat list \<Rightarrow> npfloat list
     \<Rightarrow> error + npfloat list list" where
  "griddata method px py vals xs ys =
     bind_e (broadcast_points px py) (\<lambda>points.
       if length vals \<noteq> length points then Inl ValueError
       else Inr (map (\<lambda>y. map (\<lambda>x. method points vals (x, y)) xs) ys))"

text \<open>
  The assignment \<^verbatim>\<open>zs[f] = g\<close> of an array \<open>g\<close> of shape \<open>(a, b)\<close> to a slice of shape
  \<open>(p, q)\<close>: numpy broadcasts \<open>g\<close> to the shape of the slice, which needs each dimension
  of \<open>g\<close> to be the one of the slice or 1, and raises ValueError otherwise.
\<close>

definition assign_slice ::
  "nat \<times> nat \<Rightarrow> nat \<times> nat \<Rightarrow> npfloat list list \<Rightarrow> error + npfloat list list" where
  "assign_slice target source g =
     (if (fst source = fst target \<or> fst source = 1) \<and> (snd source = snd target \<or> snd source = 1)
      then Inr (map (\<lambda>i. map (\<lambda>j. g ! (if fst source = 1 then 0 else i)
                                     ! (if snd source = 1 then 0 else j))
                           [0..<snd target])
                  [0..<fst target])
      else Inl ValueError)"

text \<open>
  A card of a FITS header. Storing \<^verbatim>\<open>None\<close> gives a card with an undefined value;
  storing a float that is NaN or infinite raises ValueError.
\<close>

datatype card = CInt int | CFloat npfloat | CStr string | CUndefined

definition float_card :: "npfloat \<Rightarrow> error + card" where
  "float_card v = (if is_fin v then Inr (CFloat v) else Inl ValueError)"

text \<open>
  The file system maps a path to a directory or to a FITS file (header and data); the
  standard output is the list of the lines printed. Paths are compared as strings, and
  permissions and full disks are not modelled: creating a directory and removing a file
  succeed. \<^verbatim>\<open>fits.writeto\<close> without \<^verbatim>\<open>overwrite\<close> raises OSError when the path exists.
\<close>

datatype entry = Directory | FitsFile "(string \<times> card) list" "npfloat list list list"

record world =
  fs :: "string \<Rightarrow> entry option"
  stdout :: "string list"

definition print :: "string \<Rightarrow> world \<Rightarrow> world" where
  "print line w = w\<lparr>stdout := stdout w @ [line]\<rparr>"

definition isfile :: "world \<Rightarrow> string \<Rightarrow> bool" where
  "isfile w path = (case fs w path of Some (FitsFile hdr zs) \<Rightarrow> True | _ \<Rightarrow> False)"

definition writeto ::
  "string \<Rightarrow> npfloat list list list \<Rightarrow> (string \<times> card) list \<Rightarrow> world \<Rightarrow> error + world" where
  "writeto path zs hdr w =
     (if fs w path \<noteq> None then Inl OSError
      else Inr (w\<lparr>fs := (fs w)(path \<mapsto> FitsFile hdr zs)\<rparr>))"

subsection \<open>The steps of \<^verbatim>\<open>save_fits\<close>\<close>

text \<open>
  The target path (lines 154 to 163). \<open>dirname_abspath\<close> stands for
  \<^verbatim>\<open>os.path.dirname(os.path.abspath(.))\<close>, which depends on the working directory.
\<close>

definition resolve_filename ::
  "(string \<Rightarrow> string) \<Rightarrow> model \<Rightarrow> string option \<Rightarrow> world \<Rightarrow> string \<times> world" where
  "resolve_filename dirname_abspath m filename w =
     (if filename = None \<or> filename = Some []
      then let im_dir = dirname_abspath (model_name m) @ ''/images/''
           in (im_dir @ ''image.fits'',
               if fs w im_dir = None
               then print (''Created image directory: '' @ im_dir)
                      (w\<lparr>fs := (fs w)(im_dir \<mapsto> Directory)\<rparr>)
               else w)
      else (case filename of Some name \<Rightarrow> (name, w) | None \<Rightarrow> ([], w)))"

text \<open>Lines 165 to 167: an existing file at the target path is removed.\<close>

definition remove_existing :: "string \<Rightarrow> world \<Rightarrow> world" where
  "remove_existing path w = (if isfile w path then w\<lparr>fs := (fs w)(path := None)\<rparr> else w)"

text \<open>Lines 178 and 179, for one axis: the smallest and the largest coordinate, over \<open>zoom\<close>.\<close>

definition bounding_box :: "npfloat list \<Rightarrow> npfloat \<Rightarrow> error + npfloat \<times> npfloat" where
  "bounding_box coords zoom =
     bind_e (np_min coords) (\<lambda>lo.
     bind_e (np_max coords) (\<lambda>hi.
       Inr (fdiv lo zoom, fdiv hi zoom)))"

text \<open>The local variables after line 191 (field \<open>v_xs\<close> holds the variable \<^verbatim>\<open>xs\<close>).\<close>

record locals =
  v_imx :: "npfloat list"
  v_imy :: "npfloat list"
  v_imI :: "npfloat list list"
  v_xs :: "npfloat list"
  v_ys :: "npfloat list"
  v_freqs :: "npfloat list"
  v_f_ij :: npfloat
  v_dpix_x :: npfloat
  v_dpix_y :: npfloat
  v_dfreqs :: "npfloat list"

definition image_grid :: "model \<Rightarrow> int \<Rightarrow> npfloat \<Rightarrow> int \<Rightarrow> int \<Rightarrow> error + locals" where
  "image_grid m image_nr zoom npix_x npix_y =
     bind_e (py_index (images m) image_nr) (\<lambda>img.
     bind_e (np_array2 (I img)) (\<lambda>intensities.
     bind_e (bounding_box (ImX img) zoom) (\<lambda>(x_min, x_max).
     bind_e (bounding_box (ImY img) zoom) (\<lambda>(y_min, y_max).
     bind_e (linspace x_min x_max npix_x) (\<lambda>grid_x.
     bind_e (linspace y_min y_max npix_y) (\<lambda>grid_y.
     bind_e (np_array2 (nu m)) (\<lambda>nus.
     bind_e (idx nus 0) (\<lambda>fr.
       Inr \<lparr>v_imx = ImX img, v_imy = ImY img, v_imI = intensities, v_xs = grid_x, v_ys = grid_y,
            v_freqs = fr, v_f_ij = np_mean fr, v_dpix_x = np_mean (np_diff grid_x),
            v_dpix_y = np_mean (np_diff grid_y), v_dfreqs = np_diff fr\<rparr>))))))))"

text \<open>
  Lines 193 to 197: \<open>None\<close> when the warning is printed, the mean of the differences
  otherwise.
\<close>

definition frequency_spacing :: "npfloat list \<Rightarrow> error + npfloat option" where
  "frequency_spacing ds =
     bind_e (np_max ds) (\<lambda>hi.
     bind_e (np_min ds) (\<lambda>lo.
       Inr (if fgreater (fabs (relative_error hi lo)) (Fin (1 / 10 ^ 9))
            then None else Some (np_mean ds))))"

text \<open>
  Lines 200 to 203: the cube \<^verbatim>\<open>np.zeros((nfreqs, npix_x, npix_y))\<close> and the loop over the
  frequency bins that fills its slices.
\<close>

definition resample ::
  "interpolant \<Rightarrow> locals \<Rightarrow> nat \<Rightarrow> int \<Rightarrow> int \<Rightarrow> error + npfloat list list list" where
  "resample method l n npix_x npix_y =
     (if npix_x < 0 \<or> npix_y < 0 then Inl ValueError
      else mapM_e (\<lambda>f.
             bind_e (column (v_imI l) f) (\<lambda>vals.
             bind_e (griddata method (v_imx l) (v_imy l) vals (v_xs l) (v_ys l)) (\<lambda>g.
               assign_slice (nat npix_x, nat npix_y) (length (v_ys l), length (v_xs l)) g)))
           [0..<n])"

text \<open>Lines 205 to 214: the header.\<close>

definition make_header ::
  "nat \<Rightarrow> int \<Rightarrow> int \<Rightarrow> locals \<Rightarrow> npfloat option \<Rightarrow> error + (string \<times> card) list" where
  "make_header n npix_x npix_y l dfreq =
     bind_e (float_card (v_f_ij l)) (\<lambda>centfreq.
     bind_e (float_card (v_dpix_x l)) (\<lambda>dx.
     bind_e (float_card (v_dpix_y l)) (\<lambda>dy.
     bind_e (case dfreq of None \<Rightarrow> Inr CUndefined | Some d \<Rightarrow> float_card d) (\<lambda>df.
       Inr [(''NAXIS'', CInt 3), (''NAXIS1'', CInt (int n)), (''NAXIS2'', CInt npix_x),
            (''NAXIS3'', CInt npix_y), (''CENTFREQ'', centfreq), (''DPIX_X'', dx),
            (''DPIX_Y'', dy), (''DFREQ'', df),
            (''IM_UNIT'', CStr ''W m^-2 Hz^-1 ster^-1'')]))))"

text \<open>
  The whole function. It returns the exception raised, if any, and the world it leaves
  behind: what was printed, created and removed before an exception stays so.
\<close>

definition save_fits ::
  "(string \<Rightarrow> string) \<Rightarrow> interpolant \<Rightarrow> model \<Rightarrow> string option \<Rightarrow> int \<Rightarrow> npfloat \<Rightarrow> int \<Rightarrow> int
     \<Rightarrow> world \<Rightarrow> error option \<times> world" where
  "save_fits dirname_abspath method m filename image_nr zoom npix_x npix_y w =
     (if length (images m) < 1 then (None, print ''No images in model.'' w)
      else
        let target = resolve_filename dirname_abspath m filename w;
            path = fst target;
            w2 = remove_existing path (snd target)
        in case image_grid m image_nr zoom npix_x npix_y of
             Inl e \<Rightarrow> (Some e, w2)
           | Inr l \<Rightarrow>
              (case frequency_spacing (v_dfreqs l) of
                 Inl e \<Rightarrow> (Some e, w2)
               | Inr dfreq \<Rightarrow>
                  let w3 = (if dfreq = None
                            then print ''WARNING: No regularly spaced frequency bins!'' w2
                            else w2)
                  in case resample method l (nfreqs m) npix_x npix_y of
                       Inl e \<Rightarrow> (Some e, w3)
                     | Inr zs \<Rightarrow>
                        (case make_header (nfreqs m) npix_x npix_y l dfreq of
                           Inl e \<Rightarrow> (Some e, w3)
                         | Inr hdr \<Rightarrow>
                            (case writeto path zs hdr w3 of
                               Inl e \<Rightarrow> (Some e, w3)
                             | Inr w4 \<Rightarrow> (None, print (''Written file to: '' @ path) w4)))))"

text \<open>
  The value of the key \<open>k\<close> in a header, and a nearest-neighbour interpolant on which the
  exporter is evaluated below: the value of the sample closest to the target, the earlier
  one of two samples at the same distance.
\<close>

definition card_of :: "(string \<times> card) list \<Rightarrow> string \<Rightarrow> card option" where
  "card_of hdr k = map_of hdr k"

definition dist2 :: "point \<Rightarrow> point \<Rightarrow> npfloat" where
  "dist2 p q =
     fadd (fmul (fsub (fst p) (fst q)) (fsub (fst p) (fst q)))
          (fmul (fsub (snd p) (snd q)) (fsub (snd p) (snd q)))"

fun nearest :: interpolant where
  "nearest (p # p' # ps) (v # v' # vs) q =
     (if fless (dist2 p' q) (dist2 p q) then nearest (p' # ps) (v' # vs) q
      else nearest (p # ps) (v # vs) q)"
| "nearest ps (v # vs) q = v"
| "nearest ps [] q = NaN"

subsection \<open>Calls that complete\<close>

text \<open>
  The conditions under which \<^verbatim>\<open>save_fits\<close> is shown below to run to its end. The image
  index is valid; the image has at least one point, finite coordinates, as many ordinates
  as abscissae and one row of intensities per point, all rows of one length that covers
  the \<open>nfreqs\<close> bins; the zoom is finite and not zero; there are at least two pixels per
  axis (a single pixel has no pixel size: the mean of no difference is NaN, which the
  header refuses) and as many along \<open>y\<close> as along \<open>x\<close> (the slice assignment of
  the loop raises otherwise); the frequencies form
  a rectangular array whose first row has at least two finite entries (\<^verbatim>\<open>np.max\<close> of no
  difference raises).
\<close>

definition export_ready :: "model \<Rightarrow> int \<Rightarrow> npfloat \<Rightarrow> int \<Rightarrow> int \<Rightarrow> bool" where
  "export_ready m image_nr zoom npix_x npix_y =
     (case py_index (images m) image_nr of
        Inl e \<Rightarrow> False
      | Inr img \<Rightarrow>
          ImX img \<noteq> [] \<and> list_all is_fin (ImX img)
        \<and> length (ImY img) = length (ImX img) \<and> list_all is_fin (ImY img)
        \<and> length (I img) = length (ImX img)
        \<and> list_all (\<lambda>r. length r = length (hd (I img))) (I img)
        \<and> nfreqs m \<le> length (hd (I img))
        \<and> is_fin zoom \<and> zoom \<noteq> Fin 0 \<and> 2 \<le> npix_x \<and> npix_y = npix_x
        \<and> (case nu m of
             [] \<Rightarrow> False
           | fr # rest \<Rightarrow>
               list_all (\<lambda>r. length r = length fr) rest \<and> 2 \<le> length fr \<and> list_all is_fin fr))"

subsection \<open>Sample inputs of the exporter\<close>

text \<open>
  An image of four points at the corners of the unit square with three frequency bins, a
  model holding it, a world with no file, and a world with a file at \<^verbatim>\<open>cube.fits\<close>.
\<close>

definition sample_image :: image where
  "sample_image = \<lparr>ImX = [Fin 0, Fin 1, Fin 0, Fin 1], ImY = [Fin 0, Fin 0, Fin 1, Fin 1],
     I = [[Fin 1, Fin 10, Fin 100], [Fin 2, Fin 20, Fin 200],
          [Fin 3, Fin 30, Fin 300], [Fin 4, Fin 40, Fin 400]]\<rparr>"

definition sample_model :: "npfloat list \<Rightarrow> model" where
  "sample_model fr = \<lparr>images = [sample_image], model_name = ''model.hdf5'', nfreqs = 3, nu = [fr]\<rparr>"

definition empty_world :: world where
  "empty_world = \<lparr>fs = (\<lambda>path. None), stdout = []\<rparr>"

definition world_with_cube :: world where
  "world_with_cube = \<lparr>fs = (\<lambda>path. None)(''cube.fits'' \<mapsto> FitsFile [] []), stdout = []\<rparr>"

subsection \<open>Sample line data\<close>


definition ld_maser :: LineData where
  "ld_maser = \<lparr>nlev = 2, weight = [Fin 1, Fin 3], energy = [Fin 0, Fin 0], nrad = 1,
     irad = [1], jrad = [0], frequency = [Fin 1], A = [Fin 1], Ba = [Fin 1], Bs = [Fin 1],
     inverse_mass = Fin 1\<rparr>"

section \<open>Properties of the radiative quantities\<close>

subsection \<open>Auxiliary facts\<close>

lemma bind_e_Inr: "bind_e (Inr x) f = f x"
  by (simp add: bind_e_def)

lemma bind_e_Inl: "bind_e (Inl e) f = Inl e"
  by (simp add: bind_e_def)

lemma mapM_e_all_Inr:
  "(\<And>x. x \<in> set xs \<Longrightarrow> f x = Inr (g x)) \<Longrightarrow> mapM_e f xs = Inr (map g xs)"
  by (induction xs) (simp_all add: bind_e_Inr)

lemma idx_in: "i < length xs \<Longrightarrow> idx xs i = Inr (xs ! i)"
  by (simp add: idx_def)

lemma foldl_fadd_Fin: "foldl fadd (Fin a) (map Fin xs) = Fin (a + sum_list xs)"
  by (induction xs arbitrary: a) (simp_all add: add.assoc)

lemma py_sum_Fin: "py_sum (map Fin xs) = Fin (sum_list xs)"
  by (simp add: py_sum_def foldl_fadd_Fin)

lemma kb_pos: "0 < kb"
  by (simp add: kb_def)

lemma h_pos: "0 < h"
  by (simp add: h_def)

lemma c_pos: "0 < c"
  by (simp add: c_def)

lemma planck_Fin:
  assumes "0 < T" "0 < fr"
  shows "planck (Fin T) (Fin fr) = Fin (2 * h / c ^ 2 * fr ^ 3 / (exp (h * fr / (kb * T)) - 1))"
proof -
  have "0 < h * fr / (kb * T)"
    using assms kb_pos h_pos by simp
  then have "1 < exp (h * fr / (kb * T))"
    by (rule exp_gt_one)
  then have "exp (h * fr / (kb * T)) - 1 \<noteq> 0"
    by linarith
  moreover have "kb * T \<noteq> 0"
    using assms kb_pos by simp
  ultimately show ?thesis
    unfolding planck_def by (simp del: exp_gt_one one_less_exp_iff)
qed

lemma planck_mono_real:
  assumes "0 < fr" "0 < T1" "T1 < T2"
  shows "2 * h / c ^ 2 * fr ^ 3 / (exp (h * fr / (kb * T1)) - 1)
       < 2 * h / c ^ 2 * fr ^ 3 / (exp (h * fr / (kb * T2)) - 1)"
proof -
  have hn: "0 < h * fr" using assms h_pos by simp
  have k1: "0 < kb * T1" and k2: "0 < kb * T2" using assms kb_pos by simp_all
  have "kb * T1 < kb * T2" using assms kb_pos by simp
  then have x: "h * fr / (kb * T2) < h * fr / (kb * T1)"
    using hn k1 k2 by (simp add: frac_less2)
  have "0 < h * fr / (kb * T2)" using hn k2 by simp
  then have "1 < exp (h * fr / (kb * T2))" by (rule exp_gt_one)
  then have p2: "0 < exp (h * fr / (kb * T2)) - 1" by simp
  have lt: "exp (h * fr / (kb * T2)) - 1 < exp (h * fr / (kb * T1)) - 1"
    using x by simp
  have p1: "0 < exp (h * fr / (kb * T1)) - 1" using p2 lt by linarith
  have num: "0 < 2 * h / c ^ 2 * fr ^ 3"
    using h_pos c_pos assms by simp
  show ?thesis
    by (rule divide_strict_left_mono [OF lt num]) (rule mult_pos_pos [OF p1 p2])
qed

text \<open>
  Claim C7. On finite arguments, for a fixed frequency \<open>nu > 0\<close> the Planck function is
  strictly increasing in the temperature over \<open>T > 0\<close>; and for every frequency, finite
  or not, \<^verbatim>\<open>I_CMB\<close> is the Planck function at the temperature 2.72548.
\<close>

theorem planck_increasing:
  "(\<forall>fr T1 T2. 0 < fr \<and> 0 < T1 \<and> T1 < T2 \<longrightarrow>
      fless (planck (Fin T1) (Fin fr)) (planck (Fin T2) (Fin fr)))
   \<and> (\<forall>frequency. I_CMB frequency = planck (Fin (272548 / 100000)) frequency)"
proof (intro conjI allI impI)
  fix fr T1 T2 :: real
  assume a: "0 < fr \<and> 0 < T1 \<and> T1 < T2"
  then have "0 < T2" by simp
  with a have "planck (Fin T1) (Fin fr)
        = Fin (2 * h / c ^ 2 * fr ^ 3 / (exp (h * fr / (kb * T1)) - 1))"
    and "planck (Fin T2) (Fin fr)
        = Fin (2 * h / c ^ 2 * fr ^ 3 / (exp (h * fr / (kb * T2)) - 1))"
    by (simp_all only: planck_Fin)
  moreover have "2 * h / c ^ 2 * fr ^ 3 / (exp (h * fr / (kb * T1)) - 1)
       < 2 * h / c ^ 2 * fr ^ 3 / (exp (h * fr / (kb * T2)) - 1)"
    using a by (intro planck_mono_real) simp_all
  ultimately show "fless (planck (Fin T1) (Fin fr)) (planck (Fin T2) (Fin fr))"
    by (simp only: fless.simps)
next
  fix frequency
  show "I_CMB frequency = planck (Fin (272548 / 100000)) frequency"
    by (simp add: I_CMB_def T_CMB_def)
qed

theorem planck_increasing_witness:
  "(0::real) < 1 \<and> (0::real) < 1 \<and> (1::real) < 2
   \<and> fless (planck (Fin 1) (Fin 1)) (planck (Fin 2) (Fin 1))
   \<and> I_CMB (Fin 1) = planck (Fin (272548 / 100000)) (Fin 1)"
  using planck_increasing by simp










lemma hnu_4pi_Fin: "hnu_4pi (Fin x) = Fin (h * x / (4 * pi))"
  by (simp add: hnu_4pi_def)

lemma lineEmissivity_k_Fin:
  assumes "k < length (irad ld)" "k < length (jrad ld)" "k < length nus" "k < length as"
    and "irad ld ! k < length ps"
    and "frequency ld = map Fin nus" "A ld = map Fin as"
  shows "lineEmissivity_k ld (map Fin ps) k
       = Inr (Fin (h * nus ! k / (4 * pi) * as ! k * ps ! (irad ld ! k)))"
  using assms by (simp add: lineEmissivity_k_def idx_in bind_e_Inr hnu_4pi_Fin)

lemma lineOpacity_k_Fin:
  assumes "k < length (irad ld)" "k < length (jrad ld)" "k < length nus"
    and "k < length bas" "k < length bss"
    and "irad ld ! k < length ps" "jrad ld ! k < length ps"
    and "frequency ld = map Fin nus" "Ba ld = map Fin bas" "Bs ld = map Fin bss"
  shows "lineOpacity_k ld (map Fin ps) k
       = Inr (Fin (h * nus ! k / (4 * pi)
                   * (bas ! k * ps ! (jrad ld ! k) - bss ! k * ps ! (irad ld ! k))))"
  using assms by (simp add: lineOpacity_k_def idx_in bind_e_Inr hnu_4pi_Fin fsub_def)

lemma fdiv_Fin_not_fin: "\<not> is_fin (fdiv (Fin a) (Fin b)) \<longleftrightarrow> b = 0"
  by (simp add: signed_inf_def)

lemma lineOpacity_Fin:
  assumes rad: "length (irad ld) = nrad ld" "length (jrad ld) = nrad ld"
      "length nus = nrad ld" "length bas = nrad ld" "length bss = nrad ld"
    and fin: "frequency ld = map Fin nus" "Ba ld = map Fin bas" "Bs ld = map Fin bss"
    and lev: "\<forall>k<nrad ld. irad ld ! k < nlev ld \<and> jrad ld ! k < nlev ld"
    and pop: "length ps = nlev ld"
  shows "lineOpacity ld (map Fin ps)
       = Inr (map (\<lambda>k. Fin (h * nus ! k / (4 * pi)
                   * (bas ! k * ps ! (jrad ld ! k) - bss ! k * ps ! (irad ld ! k))))
               [0..<nrad ld])"
  unfolding lineOpacity_def
proof (rule mapM_e_all_Inr)
  fix k assume "k \<in> set [0..<nrad ld]"
  then have k: "k < nrad ld" by simp
  then show "lineOpacity_k ld (map Fin ps) k
       = Inr (Fin (h * nus ! k / (4 * pi)
                   * (bas ! k * ps ! (jrad ld ! k) - bss ! k * ps ! (irad ld ! k))))"
    using rad lev pop by (intro lineOpacity_k_Fin fin) simp_all
qed

lemma lineEmissivity_Fin:
  assumes rad: "length (irad ld) = nrad ld" "length (jrad ld) = nrad ld"
      "length nus = nrad ld" "length as = nrad ld"
    and fin: "frequency ld = map Fin nus" "A ld = map Fin as"
    and lev: "\<forall>k<nrad ld. irad ld ! k < nlev ld"
    and pop: "length ps = nlev ld"
  shows "lineEmissivity ld (map Fin ps)
       = Inr (map (\<lambda>k. Fin (h * nus ! k / (4 * pi) * as ! k * ps ! (irad ld ! k)))
               [0..<nrad ld])"
  unfolding lineEmissivity_def
proof (rule mapM_e_all_Inr)
  fix k assume "k \<in> set [0..<nrad ld]"
  then have k: "k < nrad ld" by simp
  then show "lineEmissivity_k ld (map Fin ps) k
       = Inr (Fin (h * nus ! k / (4 * pi) * as ! k * ps ! (irad ld ! k)))"
    using rad lev pop by (intro lineEmissivity_k_Fin fin) simp_all
qed

text \<open>
  Claim C5. For line data with \<open>nrad\<close> entries in every per-transition array, level
  indices below \<open>nlev\<close>, finite coefficients, and a finite population vector of length
  \<open>nlev\<close>: \<^verbatim>\<open>lineEmissivity\<close>, \<^verbatim>\<open>lineOpacity\<close> and \<^verbatim>\<open>lineSource\<close> return \<open>nrad\<close>
  entries each, the source function is the quotient of emissivity and opacity entry by
  entry, and entry \<open>k\<close> of the source function is infinite or NaN exactly when entry \<open>k\<close> of
  the opacity is zero.
\<close>

theorem lineSource_quotient:
  assumes rad: "length (irad ld) = nrad ld" "length (jrad ld) = nrad ld"
      "length nus = nrad ld" "length as = nrad ld" "length bas = nrad ld" "length bss = nrad ld"
    and fin: "frequency ld = map Fin nus" "A ld = map Fin as"
      "Ba ld = map Fin bas" "Bs ld = map Fin bss"
    and lev: "\<forall>k<nrad ld. irad ld ! k < nlev ld \<and> jrad ld ! k < nlev ld"
    and pop: "length ps = nlev ld"
  shows "\<exists>eta chi S. lineEmissivity ld (map Fin ps) = Inr eta
           \<and> lineOpacity ld (map Fin ps) = Inr chi
           \<and> lineSource ld (map Fin ps) = Inr S
           \<and> length eta = nrad ld \<and> length chi = nrad ld \<and> length S = nrad ld
           \<and> (\<forall>k<nrad ld. S ! k = fdiv (eta ! k) (chi ! k)
                 \<and> (\<not> is_fin (S ! k) \<longleftrightarrow> chi ! k = Fin 0))"
proof -
  define e where "e = (\<lambda>k. h * nus ! k / (4 * pi) * as ! k * ps ! (irad ld ! k))"
  define x where "x = (\<lambda>k. h * nus ! k / (4 * pi)
                   * (bas ! k * ps ! (jrad ld ! k) - bss ! k * ps ! (irad ld ! k)))"
  define eta where "eta = map (\<lambda>k. Fin (e k)) [0..<nrad ld]"
  define chi where "chi = map (\<lambda>k. Fin (x k)) [0..<nrad ld]"
  define S where "S = map (\<lambda>(a, b). fdiv a b) (zip eta chi)"
  have E: "lineEmissivity ld (map Fin ps) = Inr eta"
    unfolding eta_def e_def using rad fin lev pop by (intro lineEmissivity_Fin) simp_all
  have X: "lineOpacity ld (map Fin ps) = Inr chi"
    unfolding chi_def x_def using rad fin lev pop by (intro lineOpacity_Fin) simp_all
  have SS: "lineSource ld (map Fin ps) = Inr S"
    by (simp add: lineSource_def E X bind_e_Inr S_def)
  have l: "length eta = nrad ld" "length chi = nrad ld" "length S = nrad ld"
    by (simp_all add: eta_def chi_def S_def)
  have "S ! k = fdiv (eta ! k) (chi ! k) \<and> (\<not> is_fin (S ! k) \<longleftrightarrow> chi ! k = Fin 0)"
    if "k < nrad ld" for k
  proof -
    have q: "S ! k = fdiv (eta ! k) (chi ! k)"
      using that l by (simp add: S_def)
    have "eta ! k = Fin (e k)" "chi ! k = Fin (x k)"
      using that by (simp_all add: eta_def chi_def)
    then show ?thesis
      using q by (simp only: fdiv_Fin_not_fin npfloat.inject)
  qed
  then show ?thesis using E X SS l by blast
qed

theorem lineSource_quotient_witness:
  "(case lineSource ld_maser [Fin 1, Fin 1] of Inl e \<Rightarrow> False
    | Inr S \<Rightarrow> length S = 1 \<and> \<not> is_fin (S ! 0))"
proof -
  have lev: "\<forall>k<nrad ld_maser. irad ld_maser ! k < nlev ld_maser \<and> jrad ld_maser ! k < nlev ld_maser"
    by (simp add: ld_maser_def)
  have "\<exists>eta chi S. lineEmissivity ld_maser (map Fin [1, 1]) = Inr eta
           \<and> lineOpacity ld_maser (map Fin [1, 1]) = Inr chi
           \<and> lineSource ld_maser (map Fin [1, 1]) = Inr S
           \<and> length eta = nrad ld_maser \<and> length chi = nrad ld_maser \<and> length S = nrad ld_maser
           \<and> (\<forall>k<nrad ld_maser. S ! k = fdiv (eta ! k) (chi ! k)
                 \<and> (\<not> is_fin (S ! k) \<longleftrightarrow> chi ! k = Fin 0))"
    by (rule lineSource_quotient [of ld_maser "[1]" "[1]" "[1]" "[1]" "[1, 1]", OF _ _ _ _ _ _ _ _ _ _ lev])
       (simp_all add: ld_maser_def)
  then obtain eta chi S where chi: "lineOpacity ld_maser (map Fin [1, 1]) = Inr chi"
     and S: "lineSource ld_maser (map Fin [1, 1]) = Inr S" and len: "length S = nrad ld_maser"
     and iff: "\<forall>k<nrad ld_maser. S ! k = fdiv (eta ! k) (chi ! k)
                 \<and> (\<not> is_fin (S ! k) \<longleftrightarrow> chi ! k = Fin 0)"
    by blast
  have "lineOpacity ld_maser (map Fin [1, 1]) = Inr [Fin 0]"
    by (simp add: lineOpacity_def lineOpacity_k_def ld_maser_def idx_def bind_e_def hnu_4pi_def fsub_def)
  with chi have "chi ! 0 = Fin 0" by simp
  moreover have "0 < nrad ld_maser" by (simp add: ld_maser_def)
  ultimately have "\<not> is_fin (S ! 0)" using iff by blast
  moreover have "length S = 1" using len by (simp add: ld_maser_def)
  ultimately show ?thesis using S by simp
qed

text \<open>
  Claim C6. Under the same conditions \<^verbatim>\<open>lineOpacity\<close> returns, for each transition \<open>k\<close>
  with \<open>i = irad[k]\<close> and \<open>j = jrad[k]\<close>, the value
  \<open>h*frequency[k]/(4*pi) * (Ba[k]*pop[j] - Bs[k]*pop[i])\<close>: the absorption coefficient
  multiplies the population of the lower level \<open>j\<close>, the coefficient of stimulated emission
  that of the upper level \<open>i\<close>. The value can be negative, and the function then returns
  it like any other: with the whole population in the upper level it is \<open>-h/(4*pi)\<close>.
\<close>

theorem lineOpacity_formula:
  assumes rad: "length (irad ld) = nrad ld" "length (jrad ld) = nrad ld"
      "length nus = nrad ld" "length bas = nrad ld" "length bss = nrad ld"
    and fin: "frequency ld = map Fin nus" "Ba ld = map Fin bas" "Bs ld = map Fin bss"
    and lev: "\<forall>k<nrad ld. irad ld ! k < nlev ld \<and> jrad ld ! k < nlev ld"
    and pop: "length ps = nlev ld"
  shows "lineOpacity ld (map Fin ps)
       = Inr (map (\<lambda>k. Fin (h * nus ! k / (4 * pi)
                   * (bas ! k * ps ! (jrad ld ! k) - bss ! k * ps ! (irad ld ! k))))
               [0..<nrad ld])
     \<and> (\<exists>x. lineOpacity ld_maser [Fin 0, Fin 1] = Inr [Fin x] \<and> x < 0)"
proof
  show "lineOpacity ld (map Fin ps)
       = Inr (map (\<lambda>k. Fin (h * nus ! k / (4 * pi)
                   * (bas ! k * ps ! (jrad ld ! k) - bss ! k * ps ! (irad ld ! k))))
               [0..<nrad ld])"
    using assms by (rule lineOpacity_Fin)
  have "lineOpacity ld_maser [Fin 0, Fin 1] = Inr [Fin (- (h / (4 * pi)))]"
    by (simp add: lineOpacity_def lineOpacity_k_def ld_maser_def idx_def bind_e_def hnu_4pi_def fsub_def)
  moreover have "- (h / (4 * pi)) < 0"
    using h_pos by simp
  ultimately show "\<exists>x. lineOpacity ld_maser [Fin 0, Fin 1] = Inr [Fin x] \<and> x < 0"
    by blast
qed

theorem lineOpacity_formula_witness:
  "lineOpacity ld_maser [Fin 3, Fin 1] = Inr [Fin (h * 1 / (4 * pi) * (1 * 3 - 1 * 1))]"
proof -
  have lev: "\<forall>k<nrad ld_maser. irad ld_maser ! k < nlev ld_maser \<and> jrad ld_maser ! k < nlev ld_maser"
    by (simp add: ld_maser_def)
  have "lineOpacity ld_maser (map Fin [3, 1])
       = Inr (map (\<lambda>k. Fin (h * [1] ! k / (4 * pi)
                   * ([1] ! k * [3, 1] ! (jrad ld_maser ! k) - [1] ! k * [3, 1] ! (irad ld_maser ! k))))
               [0..<nrad ld_maser])
     \<and> (\<exists>x. lineOpacity ld_maser [Fin 0, Fin 1] = Inr [Fin x] \<and> x < 0)"
    by (rule lineOpacity_formula [of ld_maser "[1]" "[1]" "[1]" "[3, 1]", OF _ _ _ _ _ _ _ _ lev])
       (simp_all add: ld_maser_def)
  then show ?thesis by (simp add: ld_maser_def)
qed

section \<open>Properties of the exporter\<close>

subsection \<open>The steps on finite values\<close>

lemma list_all_is_fin: "list_all is_fin l \<Longrightarrow> \<exists>rs. l = map Fin rs"
proof (induction l)
  case Nil
  then show ?case by simp
next
  case (Cons a l)
  then obtain rs where "l = map Fin rs" by auto
  moreover from Cons.prems obtain r where "a = Fin r" by (cases a) simp_all
  ultimately have "a # l = map Fin (r # rs)" by simp
  then show ?case by (rule exI)
qed

lemma foldl_fmin2_Fin: "foldl fmin2 (Fin a) (map Fin rs) = Fin (Min (insert a (set rs)))"
proof (induction rs arbitrary: a)
  case Nil
  then show ?case by simp
next
  case (Cons r rs)
  have "fmin2 (Fin a) (Fin r) = Fin (min a r)"
    by (simp add: fmin2_def min_def)
  moreover have "Min (insert (min a r) (set rs)) = Min (insert a (insert r (set rs)))"
    by (cases "set rs = {}") (simp_all add: min.assoc)
  ultimately show ?case using Cons.IH [of "min a r"] by simp
qed

lemma foldl_fmax2_Fin: "foldl fmax2 (Fin a) (map Fin rs) = Fin (Max (insert a (set rs)))"
proof (induction rs arbitrary: a)
  case Nil
  then show ?case by simp
next
  case (Cons r rs)
  have "fmax2 (Fin a) (Fin r) = Fin (max a r)"
    by (simp add: fmax2_def max_def)
  moreover have "Max (insert (max a r) (set rs)) = Max (insert a (insert r (set rs)))"
    by (cases "set rs = {}") (simp_all add: max.assoc)
  ultimately show ?case using Cons.IH [of "max a r"] by simp
qed

lemma np_min_Fin: "rs \<noteq> [] \<Longrightarrow> np_min (map Fin rs) = Inr (Fin (Min (set rs)))"
  by (cases rs) (simp_all add: np_min_def foldl_fmin2_Fin)

lemma np_max_Fin: "rs \<noteq> [] \<Longrightarrow> np_max (map Fin rs) = Inr (Fin (Max (set rs)))"
  by (cases rs) (simp_all add: np_max_def foldl_fmax2_Fin)

lemma bounding_box_Fin:
  assumes "rs \<noteq> []" "z \<noteq> 0"
  shows "bounding_box (map Fin rs) (Fin z) = Inr (Fin (Min (set rs) / z), Fin (Max (set rs) / z))"
  using assms by (simp add: bounding_box_def np_min_Fin np_max_Fin bind_e_Inr)

lemma linspace_Fin:
  assumes "2 \<le> n"
  shows "linspace (Fin a) (Fin b) n
       = Inr (map Fin (map (\<lambda>i. real i * ((b - a) / real (nat n - 1)) + a) [0..<nat n - 1] @ [b]))"
proof -
  have "real (nat n - 1) \<noteq> 0" using assms by simp
  then show ?thesis
    using assms by (simp add: linspace_def fsub_def)
qed

lemma np_diff_Fin: "np_diff (map Fin rs) = map Fin (map (\<lambda>(a, b). b - a) (zip rs (tl rs)))"
  by (simp add: np_diff_def zip_map_map map_tl [symmetric] fsub_def split_def del: map_tl)

lemma np_mean_Fin:
  "rs \<noteq> [] \<Longrightarrow> np_mean (map Fin rs) = Fin (sum_list rs / real (length rs))"
  by (simp add: np_mean_def py_sum_Fin)

lemma column_rect:
  assumes "rows \<noteq> []" "f < length (hd rows)"
  shows "column rows f = Inr (map (\<lambda>row. row ! f) rows)"
  using assms by (cases rows) (simp_all add: column_def)

lemma griddata_same_length:
  assumes "length py = length px" "length vals = length px"
  shows "griddata method px py vals gx gy
       = Inr (map (\<lambda>y. map (\<lambda>x. method (zip px py) vals (x, y)) gx) gy)"
  using assms by (simp add: griddata_def broadcast_points_def bind_e_Inr)

lemma assign_slice_same:
  "assign_slice (p, q) (p, q) (map (\<lambda>y. map (\<lambda>x. F x y) gx) gy)
     = Inr (map (\<lambda>i. map (\<lambda>j. map (\<lambda>y. map (\<lambda>x. F x y) gx) gy
                 ! (if p = 1 then 0 else i) ! (if q = 1 then 0 else j)) [0..<q]) [0..<p])"
  by (simp add: assign_slice_def)

lemma np_diff_nonempty:
  assumes "2 \<le> length rs"
  shows "\<exists>ds. np_diff (map Fin rs) = map Fin ds \<and> ds \<noteq> []"
proof -
  from assms obtain a b t where "rs = a # b # t"
    by (cases rs; cases "tl rs") auto
  then have "map (\<lambda>(a, b). b - a) (zip rs (tl rs)) \<noteq> []" by simp
  then show ?thesis using np_diff_Fin by blast
qed

lemma mean_diff_fin:
  assumes "2 \<le> length rs"
  shows "is_fin (np_mean (np_diff (map Fin rs)))"
proof -
  from np_diff_nonempty [OF assms] obtain ds where "np_diff (map Fin rs) = map Fin ds" "ds \<noteq> []"
    by blast
  then show ?thesis by (simp add: np_mean_Fin)
qed

lemma linspace_ready:
  assumes "2 \<le> n"
  shows "\<exists>g. linspace (Fin a) (Fin b) n = Inr (map Fin g) \<and> length g = nat n"
proof -
  have "length (map (\<lambda>i. real i * ((b - a) / real (nat n - 1)) + a) [0..<nat n - 1] @ [b]) = nat n"
    using assms by simp
  then show ?thesis using linspace_Fin [OF assms] by blast
qed

lemma image_grid_ready:
  assumes "export_ready m image_nr zoom npix_x npix_y"
  shows "\<exists>l img. py_index (images m) image_nr = Inr img
           \<and> image_grid m image_nr zoom npix_x npix_y = Inr l
           \<and> v_imx l = ImX img \<and> v_imy l = ImY img \<and> v_imI l = I img
           \<and> length (v_xs l) = nat npix_x \<and> length (v_ys l) = nat npix_y
           \<and> is_fin (v_f_ij l) \<and> is_fin (v_dpix_x l) \<and> is_fin (v_dpix_y l)
           \<and> v_dfreqs l = np_diff (hd (nu m))
           \<and> (\<exists>ds. v_dfreqs l = map Fin ds \<and> ds \<noteq> [])"
proof -
  from assms obtain img where img: "py_index (images m) image_nr = Inr img"
    by (auto simp: export_ready_def split: sum.splits)
  with assms have r: "ImX img \<noteq> []" "list_all is_fin (ImX img)"
      "length (ImY img) = length (ImX img)" "list_all is_fin (ImY img)"
      "list_all (\<lambda>r. length r = length (hd (I img))) (I img)"
      "is_fin zoom" "zoom \<noteq> Fin 0" "2 \<le> npix_x" "npix_y = npix_x"
    by (simp_all add: export_ready_def)
  from assms img obtain fr rest where nu: "nu m = fr # rest"
      and rest: "list_all (\<lambda>r. length r = length fr) rest" and fr2: "2 \<le> length fr"
      and frfin: "list_all is_fin fr"
    by (auto simp: export_ready_def split: list.splits)
  obtain px where px: "ImX img = map Fin px" using r(2) list_all_is_fin by blast
  obtain py where py: "ImY img = map Fin py" using r(4) list_all_is_fin by blast
  obtain z where z: "zoom = Fin z" using r(6) by (cases zoom) simp_all
  obtain fz where fz: "fr = map Fin fz" using frfin list_all_is_fin by blast
  have pxne: "px \<noteq> []" and pyne: "py \<noteq> []" and zne: "z \<noteq> 0"
    using r px py z by auto
  have arr: "np_array2 (I img) = Inr (I img)"
    using r(5) by (simp add: np_array2_def list_all_iff)
  have arrnu: "np_array2 (fr # rest) = Inr (fr # rest)"
    using rest by (simp add: np_array2_def list_all_iff)
  obtain gx where gx: "linspace (Fin (Min (set px) / z)) (Fin (Max (set px) / z)) npix_x
      = Inr (map Fin gx)" "length gx = nat npix_x"
    using linspace_ready [OF r(8)] by blast
  obtain gy where gy: "linspace (Fin (Min (set py) / z)) (Fin (Max (set py) / z)) npix_y
      = Inr (map Fin gy)" "length gy = nat npix_y"
    using linspace_ready [of npix_y] r(8,9) by blast
  define l where "l = \<lparr>v_imx = ImX img, v_imy = ImY img, v_imI = I img, v_xs = map Fin gx,
      v_ys = map Fin gy, v_freqs = fr, v_f_ij = np_mean fr,
      v_dpix_x = np_mean (np_diff (map Fin gx)),
      v_dpix_y = np_mean (np_diff (map Fin gy)), v_dfreqs = np_diff fr\<rparr>"
  have "image_grid m image_nr zoom npix_x npix_y = Inr l"
    unfolding image_grid_def l_def
    by (simp add: img arr arrnu bind_e_Inr px py z bounding_box_Fin [OF pxne zne]
        bounding_box_Fin [OF pyne zne] gx gy nu idx_def)
  moreover have "is_fin (v_f_ij l)"
  proof -
    have "fz \<noteq> []" using fr2 fz by auto
    then show ?thesis by (simp add: l_def fz np_mean_Fin)
  qed
  moreover have "is_fin (v_dpix_x l)" "is_fin (v_dpix_y l)"
    using gx(2) gy(2) r(8,9) by (simp_all add: l_def mean_diff_fin)
  moreover have "\<exists>ds. v_dfreqs l = map Fin ds \<and> ds \<noteq> []"
    using np_diff_nonempty [of fz] fr2 by (simp add: l_def fz)
  moreover have "v_dfreqs l = np_diff (hd (nu m))"
    by (simp add: l_def nu)
  ultimately show ?thesis
    using img gx(2) gy(2) by (intro exI [of _ l] exI [of _ img]) (simp add: l_def)
qed

lemma frequency_spacing_Fin:
  assumes "ds \<noteq> []"
  shows "frequency_spacing (map Fin ds)
       = Inr (if fgreater (fabs (relative_error (Fin (Max (set ds))) (Fin (Min (set ds)))))
                   (Fin (1 / 10 ^ 9))
              then None else Some (Fin (sum_list ds / real (length ds))))"
  using assms by (simp add: frequency_spacing_def np_max_Fin np_min_Fin bind_e_Inr np_mean_Fin)

lemma resample_ready:
  assumes l: "v_imx l = px" "v_imy l = py" "v_imI l = rows"
    and len: "length py = length px" "length rows = length px" "px \<noteq> []"
    and n: "n \<le> length (hd rows)"
    and p: "0 \<le> npix" "length (v_xs l) = nat npix" "length (v_ys l) = nat npix"
  shows "resample method l n npix npix
       = Inr (map (\<lambda>f. map (\<lambda>i. map (\<lambda>j. method (zip px py) (map (\<lambda>row. row ! f) rows)
                                             (v_xs l ! j, v_ys l ! i))
                                   [0..<nat npix])
                         [0..<nat npix])
               [0..<n])"
proof -
  have rows: "rows \<noteq> []" using len by auto
  have step: "bind_e (column (v_imI l) f) (\<lambda>vals.
             bind_e (griddata method (v_imx l) (v_imy l) vals (v_xs l) (v_ys l)) (\<lambda>g.
               assign_slice (nat npix, nat npix) (length (v_ys l), length (v_xs l)) g))
     = Inr (map (\<lambda>i. map (\<lambda>j. method (zip px py) (map (\<lambda>row. row ! f) rows)
                                             (v_xs l ! j, v_ys l ! i))
                                   [0..<nat npix])
                         [0..<nat npix])"
    if "f \<in> set [0..<n]" for f
  proof -
    from that n have f: "f < length (hd rows)" by simp
    have c: "column (v_imI l) f = Inr (map (\<lambda>row. row ! f) rows)"
      using column_rect [OF rows f] l by simp
    have g: "griddata method (v_imx l) (v_imy l) (map (\<lambda>row. row ! f) rows) (v_xs l) (v_ys l)
        = Inr (map (\<lambda>y. map (\<lambda>x. method (zip px py) (map (\<lambda>row. row ! f) rows) (x, y)) (v_xs l))
                 (v_ys l))"
      using len l by (simp add: griddata_same_length)
    have a: "assign_slice (nat npix, nat npix) (length (v_ys l), length (v_xs l))
          (map (\<lambda>y. map (\<lambda>x. method (zip px py) (map (\<lambda>row. row ! f) rows) (x, y)) (v_xs l))
                 (v_ys l))
        = Inr (map (\<lambda>i. map (\<lambda>j. method (zip px py) (map (\<lambda>row. row ! f) rows)
                                             (v_xs l ! j, v_ys l ! i))
                                   [0..<nat npix])
                         [0..<nat npix])"
      using p by (auto simp: assign_slice_def)
    show ?thesis by (simp only: c g a bind_e_Inr)
  qed
  show ?thesis
    unfolding resample_def using p(1) mapM_e_all_Inr [of "[0..<n]", OF step] by simp
qed

lemma make_header_ready:
  assumes "is_fin (v_f_ij l)" "is_fin (v_dpix_x l)" "is_fin (v_dpix_y l)"
    and "case dfreq of None \<Rightarrow> True | Some d \<Rightarrow> is_fin d"
  shows "\<exists>hdr. make_header n npix_x npix_y l dfreq = Inr hdr
           \<and> card_of hdr ''DFREQ'' = Some (case dfreq of None \<Rightarrow> CUndefined | Some d \<Rightarrow> CFloat d)"
  using assms
  by (cases dfreq) (simp_all add: make_header_def float_card_def bind_e_Inr card_of_def)

lemma save_fits_stages:
  assumes "images m \<noteq> []"
    and "image_grid m image_nr zoom npix_x npix_y = Inr l"
    and "frequency_spacing (v_dfreqs l) = Inr dfreq"
    and "resample method l (nfreqs m) npix_x npix_y = Inr zs"
    and "make_header (nfreqs m) npix_x npix_y l dfreq = Inr hdr"
    and "resolve_filename d m filename w = (path, w1)"
    and "fs w1 path \<noteq> Some Directory"
  shows "save_fits d method m filename image_nr zoom npix_x npix_y w
       = (None, \<lparr>fs = (fs w1)(path \<mapsto> FitsFile hdr zs),
                 stdout = stdout w1
                   @ (if dfreq = None then [''WARNING: No regularly spaced frequency bins!''] else [])
                   @ [''Written file to: '' @ path]\<rparr>)"
proof -
  have rm: "fs (remove_existing path w1) path = None"
    using assms(7) by (cases "fs w1 path") (auto simp: remove_existing_def isfile_def split: entry.splits)
  have rm2: "(fs (remove_existing path w1))(path \<mapsto> FitsFile hdr zs) = (fs w1)(path \<mapsto> FitsFile hdr zs)"
    by (simp add: remove_existing_def)
  have so: "stdout (remove_existing path w1) = stdout w1"
    by (simp add: remove_existing_def)
  show ?thesis
    using assms(1) rm
    by (simp add: save_fits_def assms(2-6) writeto_def print_def rm2 so Let_def)
qed

subsection \<open>The export as a whole\<close>

lemma save_fits_ready:
  assumes ready: "export_ready m image_nr zoom npix_x npix_y"
    and res: "resolve_filename d m filename w = (path, w1)"
    and nodir: "fs w1 path \<noteq> Some Directory"
  shows "\<exists>l ds dfreq zs hdr. image_grid m image_nr zoom npix_x npix_y = Inr l
           \<and> np_diff (hd (nu m)) = map Fin ds \<and> ds \<noteq> []
           \<and> frequency_spacing (map Fin ds) = Inr dfreq
           \<and> resample method l (nfreqs m) npix_x npix_y = Inr zs
           \<and> make_header (nfreqs m) npix_x npix_y l dfreq = Inr hdr
           \<and> card_of hdr ''DFREQ'' = Some (case dfreq of None \<Rightarrow> CUndefined | Some x \<Rightarrow> CFloat x)
           \<and> save_fits d method m filename image_nr zoom npix_x npix_y w
               = (None, \<lparr>fs = (fs w1)(path \<mapsto> FitsFile hdr zs),
                   stdout = stdout w1
                     @ (if dfreq = None then [''WARNING: No regularly spaced frequency bins!''] else [])
                     @ [''Written file to: '' @ path]\<rparr>)"
proof -
  from image_grid_ready [OF ready] obtain l img ds where
      img: "py_index (images m) image_nr = Inr img"
      and l: "image_grid m image_nr zoom npix_x npix_y = Inr l"
      and v: "v_imx l = ImX img" "v_imy l = ImY img" "v_imI l = I img"
      and len: "length (v_xs l) = nat npix_x" "length (v_ys l) = nat npix_y"
      and fin: "is_fin (v_f_ij l)" "is_fin (v_dpix_x l)" "is_fin (v_dpix_y l)"
      and df: "v_dfreqs l = np_diff (hd (nu m))" "v_dfreqs l = map Fin ds" "ds \<noteq> []"
    by blast
  from ready img have r: "ImX img \<noteq> []" "length (ImY img) = length (ImX img)"
      "length (I img) = length (ImX img)" "nfreqs m \<le> length (hd (I img))"
      "2 \<le> npix_x" "npix_y = npix_x"
    by (simp_all add: export_ready_def)
  have ne: "images m \<noteq> []"
    using img by (auto simp: py_index_def split: if_splits)
  define dfreq where "dfreq = (if fgreater (fabs (relative_error (Fin (Max (set ds))) (Fin (Min (set ds)))))
                   (Fin (1 / 10 ^ 9))
              then None else Some (Fin (sum_list ds / real (length ds))))"
  have sp: "frequency_spacing (map Fin ds) = Inr dfreq"
    unfolding dfreq_def by (rule frequency_spacing_Fin [OF df(3)])
  have "\<exists>zs. resample method l (nfreqs m) npix_x npix_y = Inr zs"
    using resample_ready [OF v r(2) r(3) r(1) r(4), of npix_x "method"] len r(5,6) by simp
  then obtain zs where zs: "resample method l (nfreqs m) npix_x npix_y = Inr zs" ..
  have "case dfreq of None \<Rightarrow> True | Some x \<Rightarrow> is_fin x"
    by (simp add: dfreq_def)
  from make_header_ready [OF fin this] obtain hdr where
      hdr: "make_header (nfreqs m) npix_x npix_y l dfreq = Inr hdr"
      "card_of hdr ''DFREQ'' = Some (case dfreq of None \<Rightarrow> CUndefined | Some x \<Rightarrow> CFloat x)"
    by blast
  have sp': "frequency_spacing (v_dfreqs l) = Inr dfreq"
    using sp df by simp
  note save_fits_stages [OF ne l sp' zs hdr(1) res nodir]
  then show ?thesis
    using l df sp zs hdr by (intro exI [of _ l] exI [of _ ds] exI [of _ dfreq] exI [of _ zs] exI [of _ hdr]) simp
qed

lemmas save_fits_eval =
  save_fits_def sample_model_def sample_image_def empty_world_def
  resolve_filename_def remove_existing_def isfile_def image_grid_def py_index_def
  np_array2_def bounding_box_def np_min_def np_max_def fmin2_def fmax2_def bind_e_def
  linspace_def fsub_def idx_def np_mean_def np_diff_def py_sum_def frequency_spacing_def
  relative_error_def fgreater_def resample_def column_def griddata_def broadcast_points_def
  assign_slice_def print_def Let_def upt_rec make_header_def float_card_def writeto_def
  dist2_def signed_inf_def

text \<open>
  Claim C8. On a model with no image \<^verbatim>\<open>save_fits\<close> returns without an exception; it prints
  the line \<^verbatim>\<open>No images in model.\<close> and leaves the file system as it was: no directory is
  created, no file removed and none written.
\<close>

theorem no_images_no_file:
  assumes "images m = []"
  shows "save_fits d method m filename image_nr zoom npix_x npix_y w
       = (None, \<lparr>fs = fs w, stdout = stdout w @ [''No images in model.'']\<rparr>)"
  using assms by (simp add: save_fits_def print_def)

theorem no_images_no_file_witness:
  "save_fits (\<lambda>name. ''/data'') nearest ((sample_model [])\<lparr>images := []\<rparr>) None (- 1) (Fin 1) 2 2
      empty_world
     = (None, \<lparr>fs = fs empty_world, stdout = [''No images in model.'']\<rparr>)"
  using no_images_no_file [of "(sample_model [])\<lparr>images := []\<rparr>" "\<lambda>name. ''/data''" nearest
      None "- 1" "Fin 1" 2 2 empty_world]
  by (simp add: sample_model_def empty_world_def)

lemma mapM_e_Inl: "mapM_e f xs = Inl e \<Longrightarrow> \<exists>x\<in>set xs. f x = Inl e"
  by (induction xs arbitrary: e) (auto simp: bind_e_def split: sum.splits)

lemma image_grid_error: "image_grid m image_nr zoom npix_x npix_y = Inl e \<Longrightarrow> e \<noteq> OSError"
  by (auto simp: image_grid_def bind_e_def py_index_def np_array2_def bounding_box_def
      np_min_def np_max_def linspace_def idx_def
      split: sum.splits if_splits list.splits prod.splits)

lemma frequency_spacing_error: "frequency_spacing ds = Inl e \<Longrightarrow> e \<noteq> OSError"
  by (auto simp: frequency_spacing_def bind_e_def np_min_def np_max_def
      split: sum.splits list.splits)

lemma resample_error:
  assumes "resample interp l n npix_x npix_y = Inl e"
  shows "e \<noteq> OSError"
proof (cases "npix_x < 0 \<or> npix_y < 0")
  case True
  then show ?thesis using assms by (auto simp: resample_def)
next
  case False
  with assms obtain f where
      "bind_e (column (v_imI l) f) (\<lambda>vals.
         bind_e (griddata interp (v_imx l) (v_imy l) vals (v_xs l) (v_ys l)) (\<lambda>g.
           assign_slice (nat npix_x, nat npix_y) (length (v_ys l), length (v_xs l)) g)) = Inl e"
    by (auto simp: resample_def dest: mapM_e_Inl)
  then show ?thesis
    by (auto simp: bind_e_def column_def griddata_def broadcast_points_def assign_slice_def
        split: sum.splits list.splits if_splits)
qed

lemma make_header_error: "make_header n npix_x npix_y l dfreq = Inl e \<Longrightarrow> e \<noteq> OSError"
  by (auto simp: make_header_def bind_e_def float_card_def
      split: sum.splits option.splits if_splits)

text \<open>
  Claim C9, as amended. For every call on a model with at least one image, when a file
  exists at the resolved target path it is removed before anything else is computed. The
  call never raises an error of the file system: the write finds the path free. When the
  call returns without an exception the path holds the new header and the new cube and
  nothing of the old file; when it raises, the path is left empty; and it returns without
  an exception whenever \<open>export_ready\<close> holds.
\<close>

theorem existing_file_removed_first:
  assumes imgs: "images m \<noteq> []"
    and res: "resolve_filename d m filename w = (path, w1)"
    and old: "fs w1 path = Some (FitsFile hdr0 zs0)"
  shows "\<exists>r w'. save_fits d interp m filename image_nr zoom npix_x npix_y w = (r, w')
         \<and> fs (remove_existing path w1) path = None
         \<and> r \<noteq> Some OSError
         \<and> (r = None \<longrightarrow>
              (\<exists>l dfreq zs hdr. image_grid m image_nr zoom npix_x npix_y = Inr l
                 \<and> frequency_spacing (v_dfreqs l) = Inr dfreq
                 \<and> resample interp l (nfreqs m) npix_x npix_y = Inr zs
                 \<and> make_header (nfreqs m) npix_x npix_y l dfreq = Inr hdr
                 \<and> fs w' path = Some (FitsFile hdr zs)))
         \<and> (r \<noteq> None \<longrightarrow> fs w' path = None)
         \<and> (export_ready m image_nr zoom npix_x npix_y \<longrightarrow> r = None)"
proof -
  define w2 where "w2 = remove_existing path w1"
  have rm: "fs w2 path = None"
    using old by (simp add: w2_def remove_existing_def isfile_def)
  have nodir: "fs w1 path \<noteq> Some Directory" using old by simp
  have ready: "fst (save_fits d interp m filename image_nr zoom npix_x npix_y w) = None"
    if "export_ready m image_nr zoom npix_x npix_y"
    using save_fits_ready [OF that res nodir, of interp] by auto
  have n: "\<not> length (images m) < 1" using imgs by (cases "images m") simp_all
  show ?thesis
  proof (cases "image_grid m image_nr zoom npix_x npix_y")
    case (Inl e)
    then have "save_fits d interp m filename image_nr zoom npix_x npix_y w = (Some e, w2)"
      using n by (simp add: save_fits_def res w2_def Let_def)
    then show ?thesis
      using rm ready image_grid_error [OF Inl] by (auto simp: w2_def)
  next
    case l: (Inr l)
    show ?thesis
    proof (cases "frequency_spacing (v_dfreqs l)")
      case (Inl e)
      then have "save_fits d interp m filename image_nr zoom npix_x npix_y w = (Some e, w2)"
        using n by (simp add: save_fits_def res w2_def l Let_def)
      then show ?thesis
        using rm ready frequency_spacing_error [OF Inl] by (auto simp: w2_def)
    next
      case df: (Inr dfreq)
      define w3 where "w3 = (if dfreq = None
                            then print ''WARNING: No regularly spaced frequency bins!'' w2
                            else w2)"
      have rm3: "fs w3 path = None"
        using rm by (simp add: w3_def print_def)
      show ?thesis
      proof (cases "resample interp l (nfreqs m) npix_x npix_y")
        case (Inl e)
        then have "save_fits d interp m filename image_nr zoom npix_x npix_y w = (Some e, w3)"
          using n by (simp add: save_fits_def res w2_def w3_def l df Let_def)
        then show ?thesis
          using rm rm3 ready resample_error [OF Inl] by (auto simp: w2_def)
      next
        case zs: (Inr zs)
        show ?thesis
        proof (cases "make_header (nfreqs m) npix_x npix_y l dfreq")
          case (Inl e)
          then have "save_fits d interp m filename image_nr zoom npix_x npix_y w = (Some e, w3)"
            using n by (simp add: save_fits_def res w2_def w3_def l df zs Let_def)
          then show ?thesis
            using rm rm3 ready make_header_error [OF Inl] by (auto simp: w2_def)
        next
          case hdr: (Inr hdr)
          have "save_fits d interp m filename image_nr zoom npix_x npix_y w
              = (None, print (''Written file to: '' @ path)
                   (w3\<lparr>fs := (fs w3)(path \<mapsto> FitsFile hdr zs)\<rparr>))"
            using n rm
            by (simp add: save_fits_def res w2_def [symmetric] w3_def l df zs hdr
                writeto_def print_def Let_def)
          then show ?thesis
            using rm l df zs hdr by (auto simp: w2_def print_def)
        qed
      qed
    qed
  qed
qed

theorem existing_file_removed_first_witness:
  "(case save_fits (\<lambda>name. ''/data'') nearest (sample_model [Fin 1, Fin 2, Fin 3])
          (Some ''cube.fits'') (- 1) (Fin 1) 2 2 world_with_cube of
      (r, w') \<Rightarrow> r = None \<and> isfile w' ''cube.fits'' \<and> fs w' ''cube.fits'' \<noteq> Some (FitsFile [] []))"
proof -
  let ?m = "sample_model [Fin 1, Fin 2, Fin 3]"
  have ready: "export_ready ?m (- 1) (Fin 1) 2 2"
    by (simp add: export_ready_def sample_model_def sample_image_def py_index_def)
  have imgs: "images ?m \<noteq> []"
    by (simp add: sample_model_def)
  have res: "resolve_filename (\<lambda>name. ''/data'') ?m (Some ''cube.fits'') world_with_cube
      = (''cube.fits'', world_with_cube)"
    by (simp add: resolve_filename_def)
  have old: "fs world_with_cube ''cube.fits'' = Some (FitsFile [] [])"
    by (simp add: world_with_cube_def)
  from existing_file_removed_first [OF imgs res old, of nearest "- 1" "Fin 1" 2 2]
  obtain r w' where
      run: "save_fits (\<lambda>name. ''/data'') nearest ?m (Some ''cube.fits'') (- 1) (Fin 1) 2 2
                  world_with_cube = (r, w')"
      and ok: "r = None \<longrightarrow>
              (\<exists>l dfreq zs hdr. make_header (nfreqs ?m) 2 2 l dfreq = Inr hdr
                 \<and> fs w' ''cube.fits'' = Some (FitsFile hdr zs))"
      and rd: "export_ready ?m (- 1) (Fin 1) 2 2 \<longrightarrow> r = None"
    by blast
  from rd ready have r: "r = None" by simp
  with ok obtain l dfreq zs hdr where
      hdr: "make_header (nfreqs ?m) 2 2 l dfreq = Inr hdr"
      and fl: "fs w' ''cube.fits'' = Some (FitsFile hdr zs)"
    by blast
  have "hdr \<noteq> []"
    using hdr by (auto simp: make_header_def bind_e_def split: sum.splits)
  then show ?thesis using run r fl by (simp add: isfile_def)
qed

text \<open>
  Claim C9 as stated fails on a call that raises after the removal: the old file is gone
  and no new one is written. With 2 pixels along \<open>x\<close> and 3 along \<open>y\<close> the loop raises
  ValueError, and with the image index 1 on a model of one image the index raises
  IndexError; in both cases the path is empty afterwards.
\<close>

theorem removed_not_rewritten_counterexample:
  "(case save_fits (\<lambda>name. ''/data'') nearest (sample_model [Fin 1, Fin 2, Fin 3])
          (Some ''cube.fits'') (- 1) (Fin 1) 2 3 world_with_cube of
      (r, w') \<Rightarrow> r = Some ValueError \<and> fs w' ''cube.fits'' = None)
   \<and> (case save_fits (\<lambda>name. ''/data'') nearest (sample_model [Fin 1, Fin 2, Fin 3])
          (Some ''cube.fits'') 1 (Fin 1) 2 2 world_with_cube of
      (r, w') \<Rightarrow> r = Some IndexError \<and> fs w' ''cube.fits'' = None)"
  by (simp add: save_fits_eval world_with_cube_def)





subsection \<open>The axes of the cube\<close>

lemma linspace_length: "linspace a b n = Inr g \<Longrightarrow> length g = nat n"
  by (auto simp: linspace_def split: if_splits)

lemma image_grid_lengths:
  assumes "image_grid m image_nr zoom npix_x npix_y = Inr l"
  shows "length (v_xs l) = nat npix_x \<and> length (v_ys l) = nat npix_y \<and> 0 \<le> npix_x \<and> 0 \<le> npix_y"
  using assms
  by (auto simp: image_grid_def bind_e_def linspace_def split: sum.splits prod.splits if_splits)

lemma assign_slice_unequal:
  assumes "p \<noteq> q"
  shows "assign_slice (p, q) (q, p) g = Inl ValueError"
  using assms by (auto simp: assign_slice_def)

lemma resample_unequal:
  assumes "0 < n" "npix_x \<noteq> npix_y" "0 \<le> npix_x" "0 \<le> npix_y"
    and "length (v_xs l) = nat npix_x" "length (v_ys l) = nat npix_y"
  shows "\<exists>e. resample method l n npix_x npix_y = Inl e"
proof -
  have up: "[0..<n] = 0 # [Suc 0..<n]"
    using assms(1) by (simp add: upt_conv_Cons)
  have ne: "nat npix_x \<noteq> nat npix_y" using assms by simp
  show ?thesis
    using assms(3,4)
    by (simp add: resample_def up assms(5,6) assign_slice_unequal [OF ne] bind_e_def
        split: sum.splits)
qed

text \<open>
  Whenever the pixel counts of the two axes differ and there is at least one frequency
  bin, a call that gets as far as the loop raises in its first iteration.
\<close>

lemma unequal_pixels_raise:
  assumes "images m \<noteq> []"
    and "image_grid m image_nr zoom npix_x npix_y = Inr l"
    and "frequency_spacing (v_dfreqs l) = Inr dfreq"
    and "0 < nfreqs m" and "npix_x \<noteq> npix_y"
  shows "\<exists>e w'. save_fits d method m filename image_nr zoom npix_x npix_y w = (Some e, w')"
proof -
  from image_grid_lengths [OF assms(2)] have len: "length (v_xs l) = nat npix_x"
      "length (v_ys l) = nat npix_y" "0 \<le> npix_x" "0 \<le> npix_y"
    by simp_all
  from resample_unequal [OF assms(4,5) len(3,4) len(1,2)] obtain e where
      "resample method l (nfreqs m) npix_x npix_y = Inl e"
    by blast
  then show ?thesis
    using assms(1) by (simp add: save_fits_def assms(2,3) Let_def)
qed

text \<open>
  Claim C1 on the code. The slice that \<^verbatim>\<open>griddata\<close> returns has one row per entry of \<open>ys\<close>
  and one column per entry of \<open>xs\<close>, while the slice of the cube it is assigned to has
  \<open>npix_x\<close> rows and \<open>npix_y\<close> columns. With 2 pixels along \<open>x\<close> and 3 along \<open>y\<close> the
  assignment raises ValueError and no cube is written. With 2 pixels along both axes the
  export completes, and entry \<open>[0][0][1]\<close> of the cube is the intensity 2 of the sample at
  \<open>x = 1, y = 0\<close>: the second index of the cube runs over \<open>y\<close> and the third over \<open>x\<close>.
\<close>

theorem save_fits_pixel_axes:
  "fst (save_fits (\<lambda>name. ''/data'') nearest (sample_model [Fin 1, Fin 2, Fin 3])
          (Some ''cube.fits'') (- 1) (Fin 1) 2 3 empty_world) = Some ValueError
   \<and> (case save_fits (\<lambda>name. ''/data'') nearest (sample_model [Fin 1, Fin 2, Fin 3])
          (Some ''cube.fits'') (- 1) (Fin 1) 2 2 empty_world of
        (r, w') \<Rightarrow> r = None \<and>
          (case fs w' ''cube.fits'' of
             Some (FitsFile hdr zs) \<Rightarrow> zs ! 0 = [[Fin 1, Fin 2], [Fin 3, Fin 4]]
           | _ \<Rightarrow> False))"
  by (simp add: save_fits_eval)

subsection \<open>The bounding box and the zoom\<close>

lemma linspace_ends:
  assumes "2 \<le> n"
  shows "\<exists>g. linspace (Fin a) (Fin b) n = Inr g \<and> length g = nat n
           \<and> hd g = Fin a \<and> last g = Fin b"
proof -
  define k where "k = nat n - 1"
  define f where "f = (\<lambda>i. real i * ((b - a) / real k) + a)"
  have up: "[0..<k] = 0 # [Suc 0..<k]"
    using assms by (simp add: k_def upt_conv_Cons)
  have "linspace (Fin a) (Fin b) n = Inr (map Fin (map f [0..<k] @ [b]))"
    unfolding k_def f_def by (rule linspace_Fin [OF assms])
  moreover have "length (map Fin (map f [0..<k] @ [b])) = nat n"
    using assms by (simp add: k_def)
  moreover have "hd (map Fin (map f [0..<k] @ [b])) = Fin a"
    by (subst up) (simp add: f_def)
  moreover have "last (map Fin (map f [0..<k] @ [b])) = Fin b" by simp
  ultimately show ?thesis by blast
qed

lemma centre_scaled:
  fixes a b z :: real
  assumes "z \<noteq> 0"
  shows "(a / z + b / z) / 2 = (a + b) / 2 \<longleftrightarrow> z = 1 \<or> a + b = 0"
proof -
  define s where "s = a + b"
  have e: "a / z + b / z = s / z" by (simp add: s_def add_divide_distrib)
  have "s / z = s \<longleftrightarrow> s = s * z"
    using assms by (simp add: divide_eq_eq)
  also have "\<dots> \<longleftrightarrow> s * (z - 1) = 0"
    by (simp add: algebra_simps)
  also have "\<dots> \<longleftrightarrow> z = 1 \<or> s = 0"
    by auto
  finally have "s / z = s \<longleftrightarrow> z = 1 \<or> s = 0" .
  moreover have "(a / z + b / z) / 2 = (a + b) / 2 \<longleftrightarrow> s / z = s"
    unfolding e s_def [symmetric] by simp
  ultimately show ?thesis by (simp only: s_def)
qed

text \<open>
  Claim C2, as amended. For every call with finite coordinates, a finite zoom other than
  zero and at least two pixels per axis that gets as far as the grid, the grid of each
  axis starts at the smallest coordinate over \<open>zoom\<close> and ends at the largest coordinate
  over \<open>zoom\<close>. Its extent is the raw extent over \<open>zoom\<close>, and its centre is the centre of
  the raw bounding box over \<open>zoom\<close>: the box is the raw box scaled about the origin of the
  coordinates. The centre is that of the raw box exactly when \<open>zoom = 1\<close> or the raw box is
  centred at the origin.
\<close>

theorem grid_spans_scaled_box:
  assumes grid: "image_grid m image_nr (Fin z) npix_x npix_y = Inr l"
    and img: "py_index (images m) image_nr = Inr img"
    and px: "ImX img = map Fin px" and py: "ImY img = map Fin py"
    and z: "z \<noteq> 0" and n: "2 \<le> npix_x" "2 \<le> npix_y"
  shows "hd (v_xs l) = Fin (Min (set px) / z) \<and> last (v_xs l) = Fin (Max (set px) / z)
       \<and> hd (v_ys l) = Fin (Min (set py) / z) \<and> last (v_ys l) = Fin (Max (set py) / z)
       \<and> length (v_xs l) = nat npix_x \<and> length (v_ys l) = nat npix_y
       \<and> Max (set px) / z - Min (set px) / z = (Max (set px) - Min (set px)) / z
       \<and> Max (set py) / z - Min (set py) / z = (Max (set py) - Min (set py)) / z
       \<and> (Min (set px) / z + Max (set px) / z) / 2 = (Min (set px) + Max (set px)) / 2 / z
       \<and> (Min (set py) / z + Max (set py) / z) / 2 = (Min (set py) + Max (set py)) / 2 / z
       \<and> ((Min (set px) / z + Max (set px) / z) / 2 = (Min (set px) + Max (set px)) / 2
            \<longleftrightarrow> z = 1 \<or> Min (set px) + Max (set px) = 0)
       \<and> ((Min (set py) / z + Max (set py) / z) / 2 = (Min (set py) + Max (set py)) / 2
            \<longleftrightarrow> z = 1 \<or> Min (set py) + Max (set py) = 0)"
proof -
  have pxne: "px \<noteq> []"
    using grid by (auto simp: image_grid_def img px bind_e_def bounding_box_def np_min_def
        split: sum.splits)
  have pyne: "py \<noteq> []"
    using grid by (auto simp: image_grid_def img py bind_e_def bounding_box_def np_min_def
        split: sum.splits)
  obtain gx where gx: "linspace (Fin (Min (set px) / z)) (Fin (Max (set px) / z)) npix_x = Inr gx"
      "length gx = nat npix_x" "hd gx = Fin (Min (set px) / z)" "last gx = Fin (Max (set px) / z)"
    using linspace_ends [OF n(1)] by blast
  obtain gy where gy: "linspace (Fin (Min (set py) / z)) (Fin (Max (set py) / z)) npix_y = Inr gy"
      "length gy = nat npix_y" "hd gy = Fin (Min (set py) / z)" "last gy = Fin (Max (set py) / z)"
    using linspace_ends [OF n(2)] by blast
  have "v_xs l = gx \<and> v_ys l = gy"
    using grid
    by (auto simp: image_grid_def img px py bind_e_def bounding_box_Fin [OF pxne z]
        bounding_box_Fin [OF pyne z] gx(1) gy(1) split: sum.splits)
  then have "hd (v_xs l) = Fin (Min (set px) / z)" "last (v_xs l) = Fin (Max (set px) / z)"
      "hd (v_ys l) = Fin (Min (set py) / z)" "last (v_ys l) = Fin (Max (set py) / z)"
      "length (v_xs l) = nat npix_x" "length (v_ys l) = nat npix_y"
    using gx gy by simp_all
  moreover have "Max (set px) / z - Min (set px) / z = (Max (set px) - Min (set px)) / z"
      "Max (set py) / z - Min (set py) / z = (Max (set py) - Min (set py)) / z"
    by (simp_all add: diff_divide_distrib)
  moreover have "(Min (set px) / z + Max (set px) / z) / 2 = (Min (set px) + Max (set px)) / 2 / z"
      "(Min (set py) / z + Max (set py) / z) / 2 = (Min (set py) + Max (set py)) / 2 / z"
    by (simp_all add: add_divide_distrib)
  ultimately show ?thesis
    using centre_scaled [OF z, of "Min (set px)" "Max (set px)"]
      centre_scaled [OF z, of "Min (set py)" "Max (set py)"]
    by blast
qed

theorem grid_spans_scaled_box_witness:
  "(case image_grid (sample_model [Fin 1, Fin 2]) (- 1) (Fin 2) 3 3 of
      Inl e \<Rightarrow> False
    | Inr l \<Rightarrow> hd (v_xs l) = Fin 0 \<and> last (v_xs l) = Fin (1 / 2) \<and> length (v_xs l) = 3)"
proof -
  let ?m = "sample_model [Fin 1, Fin 2]"
  have "export_ready ?m (- 1) (Fin 2) 3 3"
    by (simp add: export_ready_def sample_model_def sample_image_def py_index_def)
  from image_grid_ready [OF this] obtain l where l: "image_grid ?m (- 1) (Fin 2) 3 3 = Inr l"
    by blast
  have img: "py_index (images ?m) (- 1) = Inr sample_image"
    by (simp add: sample_model_def py_index_def)
  have px: "ImX sample_image = map Fin [0, 1, 0, 1]" and py: "ImY sample_image = map Fin [0, 0, 1, 1]"
    by (simp_all add: sample_image_def)
  from grid_spans_scaled_box [OF l img px py]
  have "hd (v_xs l) = Fin (Min (set [0, 1, 0, 1 :: real]) / 2)"
      "last (v_xs l) = Fin (Max (set [0, 1, 0, 1 :: real]) / 2)" "length (v_xs l) = nat 3"
    by simp_all
  then show ?thesis using l by simp
qed

text \<open>
  Claim C2 as stated fails for a raw box that is not centred at the origin: coordinates
  from 1 to 3 with zoom 2 give the grid from \<open>1/2\<close> to \<open>3/2\<close>, centred at 1, while the raw
  box is centred at 2.
\<close>

theorem zoom_box_counterexample:
  "bounding_box [Fin 1, Fin 3] (Fin 2) = Inr (Fin (1 / 2), Fin (3 / 2))
   \<and> linspace (Fin (1 / 2)) (Fin (3 / 2)) 3 = Inr [Fin (1 / 2), Fin 1, Fin (3 / 2)]"
  by (simp add: bounding_box_def np_min_def np_max_def fmin2_def fmax2_def bind_e_def
      linspace_def fsub_def upt_rec)

subsection \<open>The check of the frequency spacing\<close>

lemma all_zero_sum:
  fixes ds :: "real list"
  assumes "ds \<noteq> []" "Max (set ds) = 0" "Min (set ds) = 0"
  shows "sum_list ds = 0"
proof -
  have "x = 0" if "x \<in> set ds" for x
  proof -
    have "Min (set ds) \<le> x" "x \<le> Max (set ds)" using that by simp_all
    then show ?thesis using assms by simp
  qed
  then show ?thesis by (induction ds) simp_all
qed

text \<open>
  Claim C10, as amended. \<^verbatim>\<open>relative_error\<close> divides by \<open>a + b\<close> without a guard: whenever
  \<open>a + b = 0\<close> its value is NaN or an infinity. In the check of the exporter, when the
  largest and the smallest difference sum to zero, the value is NaN if both are zero and
  plus infinity otherwise. NaN is not greater than the tolerance, so a constant frequency
  array takes the branch of the regular spacing: no warning, and the spacing stored is the
  mean 0. Plus infinity takes the branch of the warning.
\<close>

theorem relative_error_unguarded:
  assumes ne: "ds \<noteq> []" and zero: "Max (set ds) + Min (set ds) = 0"
  shows "relative_error (Fin (Max (set ds))) (Fin (Min (set ds)))
           = (if Max (set ds) = 0 then NaN else PInf)
       \<and> frequency_spacing (map Fin ds) = Inr (if Max (set ds) = 0 then Some (Fin 0) else None)
       \<and> (\<forall>a b. a + b = 0 \<longrightarrow> \<not> is_fin (relative_error (Fin a) (Fin b)))"
proof -
  let ?hi = "Max (set ds)" and ?lo = "Min (set ds)"
  have "?lo \<le> ?hi" using ne by simp
  with zero have hi0: "0 \<le> ?hi" and lo: "?lo = - ?hi" by linarith+
  have re: "relative_error (Fin ?hi) (Fin ?lo) = (if ?hi = 0 then NaN else PInf)"
    using hi0 zero by (simp add: relative_error_def fsub_def signed_inf_def lo)
  have sp: "frequency_spacing (map Fin ds) = Inr (if ?hi = 0 then Some (Fin 0) else None)"
  proof (cases "?hi = 0")
    case True
    then have "?lo = 0" using lo by simp
    with True have "sum_list ds = 0" using all_zero_sum [OF ne] by simp
    then show ?thesis
      using True re by (simp add: frequency_spacing_Fin [OF ne] fgreater_def)
  next
    case False
    then show ?thesis
      using re by (simp add: frequency_spacing_Fin [OF ne] fgreater_def)
  qed
  have "\<not> is_fin (relative_error (Fin a) (Fin b))" if "a + b = 0" for a b :: real
    using that by (simp add: relative_error_def fsub_def signed_inf_def)
  with re sp show ?thesis by blast
qed

theorem relative_error_unguarded_witness:
  "relative_error (Fin 1) (Fin (- 1)) = PInf
   \<and> frequency_spacing [Fin 1, Fin (- 1)] = Inr None
   \<and> \<not> is_fin (relative_error (Fin 3) (Fin (- 3)))"
proof -
  have "Max (set [1, - 1 :: real]) + Min (set [1, - 1 :: real]) = 0" by simp
  from relative_error_unguarded [OF _ this] show ?thesis by simp
qed

text \<open>
  Claim C10 as stated fails on a constant frequency array: the relative error is NaN, and
  the check then classifies the spacing as regular. The export completes without the
  warning and stores the spacing 0.
\<close>

theorem constant_frequencies_counterexample:
  "relative_error (Fin 0) (Fin 0) = NaN
   \<and> frequency_spacing (np_diff [Fin 5, Fin 5, Fin 5]) = Inr (Some (Fin 0))
   \<and> (case save_fits (\<lambda>name. ''/data'') nearest (sample_model [Fin 5, Fin 5, Fin 5])
          (Some ''cube.fits'') (- 1) (Fin 1) 2 2 empty_world of
        (r, w') \<Rightarrow> r = None \<and> stdout w' = [''Written file to: cube.fits'']
          \<and> (case fs w' ''cube.fits'' of
               Some (FitsFile hdr zs) \<Rightarrow> card_of hdr ''DFREQ'' = Some (CFloat (Fin 0))
             | _ \<Rightarrow> False))"
  by (simp add: save_fits_eval card_of_def)

end
